theory Spec2Isabelle
  imports Main "HOL-Library.Word"
begin

section \<open>The memory store of store.go\<close>

subsection \<open>Data model\<close>

text \<open>
  Go's \<open>int64\<close> is a 64-bit word: \<open>+\<close> wraps around and \<open><\<close>, \<open><=\<close> compare the
  two's complement readings (\<open><s\<close>, \<open>\<le>s\<close>). Go's \<open>int\<close> (the fields \<open>numStored\<close> and
  \<open>collectNum\<close>) is taken at its 64-bit width.

  A value of type \<open>[]byte\<close> is either the nil slice (\<open>None\<close>) or a slice with a backing
  array and its bytes (\<open>Some bs\<close>); \<open>[]byte{}\<close> is \<open>Some []\<close>, which Go tells apart from
  nil.
\<close>

type_synonym int64 = "64 word"
type_synonym byte = "8 word"
type_synonym digits = "byte list option"

definition nil_slice :: digits where
  "nil_slice = None"

definition empty_slice :: digits where
  "empty_slice = Some []"

text \<open>
  \<open>type memoryStore struct\<close>. The embedded \<open>sync.RWMutex\<close> carries no data of the
  store; its state, the number of read locks held, is part of the running system
  further down. \<open>Set\<close>, \<open>Get\<close> with \<open>clear\<close> and \<open>collect\<close> hold the write lock from
  their first statement to their last, so each of them is one step. \<open>Get\<close> without
  \<open>clear\<close> holds the read lock only (lines 71 to 74): the function \<open>Get\<close> below is such
  a call running alone, and the steps of calls that overlap come with the system.
\<close>

record memoryStore =
  digitsById :: "string \<rightharpoonup> digits"
  timeById :: "string \<rightharpoonup> int64"
  numStored :: int64
  collectNum :: int64
  expiration :: int64

subsection \<open>Operations\<close>

text \<open>\<open>NewMemoryStore\<close>: two fresh maps, the zero value of \<open>numStored\<close>, both arguments
  stored as they come.\<close>

definition NewMemoryStore :: "int64 \<Rightarrow> int64 \<Rightarrow> memoryStore" where
  "NewMemoryStore cn ex =
     \<lparr>digitsById = Map.empty, timeById = Map.empty, numStored = 0,
      collectNum = cn, expiration = ex\<rparr>"

text \<open>\<open>delete(s.digitsById, id); delete(s.timeById, id)\<close>.\<close>

definition delete_both :: "memoryStore \<Rightarrow> string \<Rightarrow> memoryStore" where
  "delete_both s k =
     s\<lparr>digitsById := (digitsById s)(k := None), timeById := (timeById s)(k := None)\<rparr>"

text \<open>
  \<open>Set\<close>. The argument \<open>now\<close> is the value of \<open>time.Now().Unix()\<close>. The boolean of the
  result says whether the statement \<open>go s.collect()\<close> was reached, that is whether a
  sweep was started in the background.
\<close>

definition Set :: "memoryStore \<Rightarrow> int64 \<Rightarrow> string \<Rightarrow> digits \<Rightarrow> memoryStore \<times> bool" where
  "Set s now k d =
     (let s1 = s\<lparr>digitsById := (digitsById s)(k \<mapsto> d)\<rparr>;
          s2 = s1\<lparr>timeById := (timeById s1)(k \<mapsto> now)\<rparr>;
          s3 = s2\<lparr>numStored := numStored s2 + 1\<rparr>
      in if numStored s3 \<le>s collectNum s3 then (s3, False) else (s3, True))"

text \<open>
  \<open>Get\<close>. The named result \<open>digits\<close> is nil when the id is not in \<open>digitsById\<close>;
  \<open>[]byte{}\<close> is returned when the timestamp is missing or too old; otherwise the
  stored slice is returned as it is.
\<close>

definition Get :: "memoryStore \<Rightarrow> int64 \<Rightarrow> string \<Rightarrow> bool \<Rightarrow> memoryStore \<times> digits" where
  "Get s now k clear =
     (case digitsById s k of
        None \<Rightarrow> (s, None)
      | Some d \<Rightarrow>
          (case timeById s k of
             None \<Rightarrow> (s, Some [])
           | Some t \<Rightarrow>
               if t + expiration s <s now then (delete_both s k, Some [])
               else if clear then (delete_both s k, d)
               else (s, d)))"

text \<open>
  \<open>collect\<close>. Go's \<open>range\<close> over a map visits the entries in an order of its own
  choosing, and an entry deleted before it is reached is not produced; \<open>ks\<close> is the
  order of the keys. The loop deletes the key it is visiting only.
\<close>

fun collect_loop :: "int64 \<Rightarrow> string list \<Rightarrow> memoryStore \<Rightarrow> memoryStore" where
  "collect_loop now [] s = s"
| "collect_loop now (k # ks) s =
     (case timeById s k of
        None \<Rightarrow> collect_loop now ks s
      | Some v \<Rightarrow>
          if v + expiration s <s now then collect_loop now ks (delete_both s k)
          else collect_loop now ks s)"

definition collect :: "memoryStore \<Rightarrow> int64 \<Rightarrow> string list \<Rightarrow> memoryStore" where
  "collect s now ks = collect_loop now ks (s\<lparr>numStored := 0\<rparr>)"

text \<open>An iteration order of \<open>range m\<close>: every key of the map, once.\<close>

definition range_order :: "(string \<rightharpoonup> 'v) \<Rightarrow> string list \<Rightarrow> bool" where
  "range_order m ks = (distinct ks \<and> set ks = dom m)"

subsection \<open>Calls that overlap\<close>

text \<open>
  A call of \<open>Get(id, false)\<close> in progress, by the statement it is about to run. It takes
  the read lock, reads \<open>digitsById\<close> (line 80), reads \<open>timeById\<close> and tests the age
  (lines 84 and 88), and when the entry is too old deletes from \<open>digitsById\<close> (line 89)
  and then from \<open>timeById\<close> (line 90). Each access to a map is one step. The call keeps
  the slice it found at line 80 in its own variable \<open>digits\<close>. When it returns, which
  releases the read lock, the way out and the result are recorded.
\<close>

datatype exit =
    NotStored     \<comment> \<open>line 82, the id is not in \<open>digitsById\<close>\<close>
  | NoTimestamp   \<comment> \<open>line 86, the id is not in \<open>timeById\<close>\<close>
  | TooOld        \<comment> \<open>line 91\<close>
  | Live          \<comment> \<open>line 104\<close>

datatype reader =
    AtDigits string
  | AtTime string digits
  | AtDelete string
  | AtDelete2 string
  | Returned exit digits

text \<open>The store, the number of read locks held, and the calls of \<open>Get(id, false)\<close> by
  number.\<close>

record sys =
  store :: memoryStore
  rlocks :: nat
  calls :: "nat \<rightharpoonup> reader"

definition idle :: "memoryStore \<Rightarrow> sys" where
  "idle s = \<lparr>store = s, rlocks = 0, calls = Map.empty\<rparr>"

fun in_flight :: "reader option \<Rightarrow> bool" where
  "in_flight None = False"
| "in_flight (Some (Returned e d)) = False"
| "in_flight (Some r) = True"

definition finish :: "sys \<Rightarrow> nat \<Rightarrow> exit \<Rightarrow> digits \<Rightarrow> sys" where
  "finish y n e d = y\<lparr>rlocks := rlocks y - 1, calls := (calls y)(n \<mapsto> Returned e d)\<rparr>"

fun read_step :: "sys \<Rightarrow> nat \<Rightarrow> int64 \<Rightarrow> reader \<Rightarrow> sys" where
  "read_step y n now (AtDigits k) =
     (case digitsById (store y) k of
        None \<Rightarrow> finish y n NotStored None
      | Some d \<Rightarrow> y\<lparr>calls := (calls y)(n \<mapsto> AtTime k d)\<rparr>)"
| "read_step y n now (AtTime k d) =
     (case timeById (store y) k of
        None \<Rightarrow> finish y n NoTimestamp (Some [])
      | Some t \<Rightarrow>
          if t + expiration (store y) <s now then y\<lparr>calls := (calls y)(n \<mapsto> AtDelete k)\<rparr>
          else finish y n Live d)"
| "read_step y n now (AtDelete k) =
     y\<lparr>store := (store y)\<lparr>digitsById := (digitsById (store y))(k := None)\<rparr>,
       calls := (calls y)(n \<mapsto> AtDelete2 k)\<rparr>"
| "read_step y n now (AtDelete2 k) =
     finish (y\<lparr>store := (store y)\<lparr>timeById := (timeById (store y))(k := None)\<rparr>\<rparr>)
       n TooOld (Some [])"
| "read_step y n now (Returned e d) = y"

subsection \<open>Sequences of operations\<close>

text \<open>
  What happens to a store, step by step. \<open>OpSet\<close>, \<open>OpGet\<close> and \<open>OpCollect\<close> are whole
  calls. Those that take the write lock (all but \<open>Get\<close> without \<open>clear\<close>) wait while a
  read lock is held: their step then changes nothing. \<open>OpRLock n id\<close> starts call \<open>n\<close>
  of \<open>Get(id, false)\<close>, and each \<open>OpRead n now\<close> runs its next statement, \<open>now\<close> being the
  clock of line 88; the steps of several such calls can alternate in any way. Go also
  holds back a new read lock while a writer waits, so its sequences are among these.
\<close>

datatype store_op =
    OpSet int64 string digits
  | OpGet int64 string bool
  | OpCollect int64 "string list"
  | OpRLock nat string
  | OpRead nat int64

fun step :: "sys \<Rightarrow> store_op \<Rightarrow> sys" where
  "step y (OpSet now k d) =
     (if rlocks y = 0 then y\<lparr>store := fst (Set (store y) now k d)\<rparr> else y)"
| "step y (OpGet now k clear) =
     (if clear \<and> 0 < rlocks y then y else y\<lparr>store := fst (Get (store y) now k clear)\<rparr>)"
| "step y (OpCollect now ks) =
     (if rlocks y = 0 then y\<lparr>store := collect (store y) now ks\<rparr> else y)"
| "step y (OpRLock n k) =
     (if in_flight (calls y n) then y
      else y\<lparr>rlocks := rlocks y + 1, calls := (calls y)(n \<mapsto> AtDigits k)\<rparr>)"
| "step y (OpRead n now) =
     (case calls y n of None \<Rightarrow> y | Some r \<Rightarrow> read_step y n now r)"

fun exec :: "sys \<Rightarrow> store_op list \<Rightarrow> sys" where
  "exec y [] = y"
| "exec y (x # xs) = exec (step y x) xs"

definition run :: "memoryStore \<Rightarrow> store_op list \<Rightarrow> memoryStore" where
  "run s xs = store (exec (idle s) xs)"

fun writes :: "string \<Rightarrow> store_op \<Rightarrow> bool" where
  "writes k (OpSet now k' d) = (k = k')"
| "writes k (OpGet now k' clear) = False"
| "writes k (OpCollect now ks) = False"
| "writes k (OpRLock n k') = False"
| "writes k (OpRead n now) = False"

fun whole_call :: "store_op \<Rightarrow> bool" where
  "whole_call (OpRLock n k) = False"
| "whole_call (OpRead n now) = False"
| "whole_call x = True"

text \<open>The two maps list the same ids.\<close>

definition same_ids :: "memoryStore \<Rightarrow> bool" where
  "same_ids s = (dom (digitsById s) = dom (timeById s))"

section \<open>Basic facts\<close>

subsection \<open>The expiry test in integers\<close>

text \<open>
  The test of \<open>Get\<close> and \<open>collect\<close> is \<open>t + expiration < now\<close> on \<open>int64\<close>. Where the
  sum stays inside the \<open>int64\<close> range it says that the age \<open>now - t\<close> is greater than
  the expiration.
\<close>

lemma sint_add_in_range:
  fixes t e :: int64
  assumes "- (2 ^ 63) \<le> sint t + sint e" and "sint t + sint e < 2 ^ 63"
  shows "sint (t + e) = sint t + sint e"
  using assms by (simp add: sint_word_ariths signed_take_bit_int_eq_self)

lemma too_old_iff:
  fixes t e now :: int64
  assumes "- (2 ^ 63) \<le> sint t + sint e" and "sint t + sint e < 2 ^ 63"
  shows "(t + e <s now) \<longleftrightarrow> sint e < sint now - sint t"
  using sint_add_in_range [OF assms] by (auto simp: word_sless_alt)

subsection \<open>Field by field\<close>

lemma delete_both_simps [simp]:
  "digitsById (delete_both s k) = (digitsById s)(k := None)"
  "timeById (delete_both s k) = (timeById s)(k := None)"
  "numStored (delete_both s k) = numStored s"
  "collectNum (delete_both s k) = collectNum s"
  "expiration (delete_both s k) = expiration s"
  by (simp_all add: delete_both_def)

lemma Set_fields [simp]:
  "digitsById (fst (Set s now k d)) = (digitsById s)(k \<mapsto> d)"
  "timeById (fst (Set s now k d)) = (timeById s)(k \<mapsto> now)"
  "numStored (fst (Set s now k d)) = numStored s + 1"
  "collectNum (fst (Set s now k d)) = collectNum s"
  "expiration (fst (Set s now k d)) = expiration s"
  by (simp_all add: Set_def Let_def)

lemma Set_scheduled: "snd (Set s now k d) \<longleftrightarrow> \<not> numStored s + 1 \<le>s collectNum s"
  by (simp add: Set_def Let_def)

subsection \<open>The four paths of \<open>Get\<close>\<close>

lemma Get_absent: "digitsById s k = None \<Longrightarrow> Get s now k clear = (s, None)"
  by (simp add: Get_def)

lemma Get_orphan:
  "digitsById s k = Some d \<Longrightarrow> timeById s k = None \<Longrightarrow> Get s now k clear = (s, Some [])"
  by (simp add: Get_def)

lemma Get_too_old:
  "digitsById s k = Some d \<Longrightarrow> timeById s k = Some t \<Longrightarrow> t + expiration s <s now \<Longrightarrow>
   Get s now k clear = (delete_both s k, Some [])"
  by (simp add: Get_def)

lemma Get_live:
  "digitsById s k = Some d \<Longrightarrow> timeById s k = Some t \<Longrightarrow> \<not> t + expiration s <s now \<Longrightarrow>
   Get s now k clear = (if clear then delete_both s k else s, d)"
  by (simp add: Get_def)

subsection \<open>The loop of \<open>collect\<close>, key by key\<close>

lemma collect_loop_config [simp]:
  "expiration (collect_loop now ks s) = expiration s"
  "collectNum (collect_loop now ks s) = collectNum s"
  "numStored (collect_loop now ks s) = numStored s"
  by (induction ks arbitrary: s; simp split: option.split)+

lemma collect_loop_time:
  "timeById (collect_loop now ks s) k =
     (case timeById s k of
        None \<Rightarrow> None
      | Some t \<Rightarrow> if k \<in> set ks \<and> t + expiration s <s now then None else Some t)"
  by (induction ks arbitrary: s) (auto split: option.split)

lemma collect_loop_digits:
  "digitsById (collect_loop now ks s) k =
     (case timeById s k of
        None \<Rightarrow> digitsById s k
      | Some t \<Rightarrow> if k \<in> set ks \<and> t + expiration s <s now then None else digitsById s k)"
  by (induction ks arbitrary: s) (auto split: option.split)

subsection \<open>Both maps keep the same ids\<close>

lemma same_ids_New: "same_ids (NewMemoryStore cn ex)"
  by (simp add: same_ids_def NewMemoryStore_def)

lemma same_ids_delete_both: "same_ids s \<Longrightarrow> same_ids (delete_both s k)"
  by (simp add: same_ids_def)

lemma same_ids_Set: "same_ids s \<Longrightarrow> same_ids (fst (Set s now k d))"
  by (simp add: same_ids_def)

lemma same_ids_Get: "same_ids s \<Longrightarrow> same_ids (fst (Get s now k clear))"
  by (auto simp: Get_def same_ids_delete_both split: option.split)

lemma same_ids_collect_loop: "same_ids s \<Longrightarrow> same_ids (collect_loop now ks s)"
  by (induction ks arbitrary: s) (auto simp: same_ids_delete_both split: option.split)

lemma same_ids_collect: "same_ids s \<Longrightarrow> same_ids (collect s now ks)"
  unfolding collect_def by (rule same_ids_collect_loop) (simp add: same_ids_def)

text \<open>So they do along any sequence of whole calls, none of them overlapping another.\<close>

lemma same_ids_step:
  "same_ids (store y) \<Longrightarrow> whole_call x \<Longrightarrow> same_ids (store (step y x)) \<and> rlocks (step y x) = rlocks y"
  by (cases x) (simp_all add: same_ids_Set same_ids_Get same_ids_collect)

lemma same_ids_exec:
  "same_ids (store y) \<Longrightarrow> \<forall>x\<in>set xs. whole_call x \<Longrightarrow> same_ids (store (exec y xs))"
  by (induction xs arbitrary: y) (simp_all add: same_ids_step)

lemma same_ids_serial:
  "\<forall>x\<in>set xs. whole_call x \<Longrightarrow> same_ids (run (NewMemoryStore cn ex) xs)"
  unfolding run_def by (rule same_ids_exec) (simp_all add: idle_def same_ids_New)

subsection \<open>Only \<open>Set\<close> adds an id\<close>

lemma absent_read_step:
  "digitsById (store y) k = None \<Longrightarrow> digitsById (store (read_step y n now r)) k = None"
  by (cases r) (auto simp: finish_def split: option.split)

lemma absent_step:
  "digitsById (store y) k = None \<Longrightarrow> \<not> writes k x \<Longrightarrow> digitsById (store (step y x)) k = None"
  by (cases x)
    (auto simp: Get_def collect_def collect_loop_digits absent_read_step split: option.split)

lemma absent_exec:
  "digitsById (store y) k = None \<Longrightarrow> \<forall>x\<in>set xs. \<not> writes k x \<Longrightarrow>
   digitsById (store (exec y xs)) k = None"
  by (induction xs arbitrary: y) (simp_all add: absent_step)

lemma absent_run:
  "digitsById s k = None \<Longrightarrow> \<forall>x\<in>set xs. \<not> writes k x \<Longrightarrow> digitsById (run s xs) k = None"
  unfolding run_def by (rule absent_exec) (simp_all add: idle_def)

subsection \<open>A call of \<open>Get(id, false)\<close> running alone\<close>

text \<open>Taken step by step with nothing in between, a call does to the store what the function
  \<open>Get\<close> does, returns what it returns, and gives the read lock back.\<close>

lemma reader_alone:
  assumes "\<not> in_flight (calls y n)"
  shows "store (exec y [OpRLock n k, OpRead n now, OpRead n now, OpRead n now, OpRead n now])
           = fst (Get (store y) now k False) \<and>
         rlocks (exec y [OpRLock n k, OpRead n now, OpRead n now, OpRead n now, OpRead n now])
           = rlocks y \<and>
         (\<exists>e. calls (exec y [OpRLock n k, OpRead n now, OpRead n now, OpRead n now, OpRead n now]) n
           = Some (Returned e (snd (Get (store y) now k False))))"
  using assms
  by (auto simp: Get_def finish_def delete_both_def split: option.split)

section \<open>Expiry on read\<close>

text \<open>
  A read at the very second at which the age equals the expiration: the entry written at
  100 with expiration 10 is read at 110, and the stored slice comes back, the store
  unchanged. It is not the \<open>[]byte{}\<close> of an expired entry.
\<close>

theorem Get_at_ttl_still_found:
  "sint (expiration (fst (Set (NewMemoryStore 2 10) 100 ''a'' (Some [1, 2, 3]))))
     \<le> sint (110 :: int64) - sint (100 :: int64) \<and>
   timeById (fst (Set (NewMemoryStore 2 10) 100 ''a'' (Some [1, 2, 3]))) ''a'' = Some 100 \<and>
   Get (fst (Set (NewMemoryStore 2 10) 100 ''a'' (Some [1, 2, 3]))) 110 ''a'' False =
     (fst (Set (NewMemoryStore 2 10) 100 ''a'' (Some [1, 2, 3])), Some [1, 2, 3]) \<and>
   Some [1, 2, 3] \<noteq> empty_slice"
  by (simp add: Get_def Set_def NewMemoryStore_def Let_def empty_slice_def word_sless_alt)

text \<open>
  C1, as the code has it. For a stored entry with creation time \<open>t\<close> whose sum
  \<open>t + expiration\<close> lies in the \<open>int64\<close> range, \<open>Get\<close> treats the entry as expired,
  deleting the id from both maps and returning \<open>[]byte{}\<close>, exactly when
  \<open>now - t > expiration\<close>. In every other case, so also when the age equals the
  expiration, it returns the stored slice, and deletes the entry only when \<open>clear\<close> is
  set.
\<close>

theorem Get_expires_after_ttl:
  assumes "digitsById s k = Some d" and "timeById s k = Some t"
    and "- (2 ^ 63) \<le> sint t + sint (expiration s)"
    and "sint t + sint (expiration s) < 2 ^ 63"
  shows "Get s now k clear =
           (if sint (expiration s) < sint now - sint t then (delete_both s k, empty_slice)
            else (if clear then delete_both s k else s, d)) \<and>
         digitsById (delete_both s k) k = None \<and> timeById (delete_both s k) k = None"
  using assms(1,2) too_old_iff [OF assms(3,4), of now]
  by (simp add: Get_def empty_slice_def)

theorem Get_expires_after_ttl_witness:
  "digitsById (fst (Set (NewMemoryStore 2 10) 100 ''a'' (Some [7]))) ''a'' = Some (Some [7]) \<and>
   timeById (fst (Set (NewMemoryStore 2 10) 100 ''a'' (Some [7]))) ''a'' = Some 100 \<and>
   - (2 ^ 63) \<le> sint (100 :: int64)
       + sint (expiration (fst (Set (NewMemoryStore 2 10) 100 ''a'' (Some [7])))) \<and>
   sint (100 :: int64)
       + sint (expiration (fst (Set (NewMemoryStore 2 10) 100 ''a'' (Some [7])))) < 2 ^ 63 \<and>
   Get (fst (Set (NewMemoryStore 2 10) 100 ''a'' (Some [7]))) 111 ''a'' False =
     (delete_both (fst (Set (NewMemoryStore 2 10) 100 ''a'' (Some [7]))) ''a'', empty_slice) \<and>
   Get (fst (Set (NewMemoryStore 2 10) 100 ''a'' (Some [7]))) 110 ''a'' True =
     (delete_both (fst (Set (NewMemoryStore 2 10) 100 ''a'' (Some [7]))) ''a'', Some [7]) \<and>
   Get (fst (Set (NewMemoryStore 2 10) 100 ''a'' (Some [7]))) 105 ''a'' False =
     (fst (Set (NewMemoryStore 2 10) 100 ''a'' (Some [7])), Some [7])"
proof -
  have h1: "digitsById (fst (Set (NewMemoryStore 2 10) 100 ''a'' (Some [7]))) ''a'' = Some (Some [7])"
    and h2: "timeById (fst (Set (NewMemoryStore 2 10) 100 ''a'' (Some [7]))) ''a'' = Some 100"
    by simp_all
  have h3: "- (2 ^ 63) \<le> sint (100 :: int64)
       + sint (expiration (fst (Set (NewMemoryStore 2 10) 100 ''a'' (Some [7]))))"
    and h4: "sint (100 :: int64)
       + sint (expiration (fst (Set (NewMemoryStore 2 10) 100 ''a'' (Some [7])))) < 2 ^ 63"
    by (simp_all add: NewMemoryStore_def)
  show ?thesis
    using h1 h2 h3 h4
      Get_expires_after_ttl [OF h1 h2 h3 h4, of 111 False]
      Get_expires_after_ttl [OF h1 h2 h3 h4, of 110 True]
      Get_expires_after_ttl [OF h1 h2 h3 h4, of 105 False]
    by (simp add: NewMemoryStore_def)
qed

section \<open>The write counter\<close>

text \<open>
  A store with threshold 0: the first \<open>Set\<close> brings the counter to 1, above the
  threshold, and returns with the counter still at 1.
\<close>

theorem Set_leaves_counter:
  "\<not> numStored (NewMemoryStore 0 10) + 1 \<le>s collectNum (NewMemoryStore 0 10) \<and>
   snd (Set (NewMemoryStore 0 10) 5 ''a'' (Some [1])) \<and>
   numStored (fst (Set (NewMemoryStore 0 10) 5 ''a'' (Some [1]))) = 1 \<and>
   numStored (fst (Set (NewMemoryStore 0 10) 5 ''a'' (Some [1]))) \<noteq> 0"
  by (simp add: Set_def NewMemoryStore_def Let_def word_sle_eq)

text \<open>
  C2, as the code has it. Every \<open>Set\<close> leaves the write counter at its incremented
  value, above the threshold or not. It starts a sweep in the background exactly when the
  incremented counter is greater than the threshold. The counter goes back to 0 in the
  sweep itself, when \<open>collect\<close> runs.
\<close>

theorem Set_counter_and_sweep:
  "numStored (fst (Set s now k d)) = numStored s + 1 \<and>
   snd (Set s now k d) = (\<not> numStored s + 1 \<le>s collectNum s) \<and>
   numStored (collect (fst (Set s now k d)) now' ks) = 0"
  by (simp add: Set_def Let_def collect_def)

theorem Set_counter_and_sweep_witness:
  "numStored (fst (Set (NewMemoryStore 1 10) 5 ''a'' (Some [1]))) = 1 \<and>
   \<not> snd (Set (NewMemoryStore 1 10) 5 ''a'' (Some [1])) \<and>
   numStored (fst (Set (fst (Set (NewMemoryStore 1 10) 5 ''a'' (Some [1]))) 6 ''b'' (Some [2]))) = 2 \<and>
   snd (Set (fst (Set (NewMemoryStore 1 10) 5 ''a'' (Some [1]))) 6 ''b'' (Some [2])) \<and>
   numStored (collect (fst (Set (fst (Set (NewMemoryStore 1 10) 5 ''a'' (Some [1])))
      6 ''b'' (Some [2]))) 7 [''a'', ''b'']) = 0"
  using Set_counter_and_sweep [of "NewMemoryStore 1 10" 5 "''a''" "Some [1]" 7 "[''a'', ''b'']"]
    Set_counter_and_sweep [of "fst (Set (NewMemoryStore 1 10) 5 ''a'' (Some [1]))" 6 "''b''"
      "Some [2]" 7 "[''a'', ''b'']"]
  by (simp add: NewMemoryStore_def word_sle_eq)

section \<open>An id with a value and no timestamp\<close>

text \<open>
  A store whose value map holds \<open>''a''\<close> and whose timestamp map does not: after a
  clearing read the value is still stored.
\<close>

theorem Get_orphan_not_purged:
  "digitsById \<lparr>digitsById = [''a'' \<mapsto> Some [1]], timeById = Map.empty,
      numStored = 0, collectNum = 2, expiration = 10\<rparr> ''a'' = Some (Some [1]) \<and>
   timeById \<lparr>digitsById = [''a'' \<mapsto> Some [1]], timeById = Map.empty,
      numStored = 0, collectNum = 2, expiration = 10\<rparr> ''a'' = None \<and>
   digitsById (fst (Get \<lparr>digitsById = [''a'' \<mapsto> Some [1]], timeById = Map.empty,
      numStored = 0, collectNum = 2, expiration = 10\<rparr> 5 ''a'' True)) ''a'' = Some (Some [1])"
  by (simp add: Get_def)

text \<open>
  C3, as the code has it. In every state in which an id is in the value map and not in
  the timestamp map, \<open>Get\<close> with either value of \<open>clear\<close> returns \<open>[]byte{}\<close>, not the
  stored value, and leaves the store as it is: the value stays in the value map.
\<close>

theorem Get_orphan_unchanged:
  assumes "digitsById s k = Some d" and "timeById s k = None"
  shows "Get s now k clear = (s, empty_slice)"
  using assms by (simp add: Get_def empty_slice_def)

theorem Get_orphan_unchanged_witness:
  "digitsById \<lparr>digitsById = [''a'' \<mapsto> Some [1]], timeById = Map.empty,
      numStored = 0, collectNum = 2, expiration = 10\<rparr> ''a'' = Some (Some [1]) \<and>
   timeById \<lparr>digitsById = [''a'' \<mapsto> Some [1]], timeById = Map.empty,
      numStored = 0, collectNum = 2, expiration = 10\<rparr> ''a'' = None \<and>
   Get \<lparr>digitsById = [''a'' \<mapsto> Some [1]], timeById = Map.empty,
      numStored = 0, collectNum = 2, expiration = 10\<rparr> 5 ''a'' False =
     (\<lparr>digitsById = [''a'' \<mapsto> Some [1]], timeById = Map.empty,
      numStored = 0, collectNum = 2, expiration = 10\<rparr>, empty_slice)"
proof -
  have h1: "digitsById \<lparr>digitsById = [''a'' \<mapsto> Some [1 :: byte]], timeById = Map.empty,
      numStored = 0, collectNum = 2, expiration = 10\<rparr> ''a'' = Some (Some [1])"
    and h2: "timeById \<lparr>digitsById = [''a'' \<mapsto> Some [1 :: byte]], timeById = Map.empty,
      numStored = 0, collectNum = 2, expiration = 10\<rparr> ''a'' = None"
    by simp_all
  show ?thesis
    using h1 h2 Get_orphan_unchanged [OF h1 h2, of 5 False] by simp
qed

section \<open>Reading right after writing\<close>

text \<open>
  With a positive expiration whose sum with the time of the write stays in the \<open>int64\<close>
  range, a read in the same second returns the stored slice; it deletes the entry when
  \<open>clear\<close> is set and leaves the store as it is otherwise, so that it can be repeated.
\<close>

lemma Set_then_Get_in_range:
  assumes "0 < sint (expiration s)" and "sint now + sint (expiration s) < 2 ^ 63"
  shows "Get (fst (Set s now k d)) now k clear =
           (if clear then delete_both (fst (Set s now k d)) k else fst (Set s now k d), d)"
proof -
  have lo: "- (2 ^ 63) \<le> sint now + sint (expiration s)"
    using assms(1) sint_ge [of now] by simp
  have "\<not> now + expiration s <s now"
    using too_old_iff [OF lo assms(2), of now] assms(1) by simp
  then show ?thesis
    by (simp add: Get_live [where d = d and t = now])
qed

text \<open>A clearing read after a write leaves the id in neither map, whichever path it takes,
  and from then on every read of the id returns nil until the id is written again.\<close>

lemma Get_clear_after_Set_gone:
  "digitsById (fst (Get (fst (Set s now k d)) now' k True)) k = None \<and>
   timeById (fst (Get (fst (Set s now k d)) now' k True)) k = None"
  by (simp add: Get_def)

lemma Get_after_gone:
  assumes "digitsById s k = None" and "\<forall>x\<in>set xs. \<not> writes k x"
  shows "snd (Get (run s xs) now k clear) = nil_slice"
  using absent_run [OF assms] by (simp add: Get_absent nil_slice_def)

text \<open>
  C4. The property: immediately after \<open>Set(i, v)\<close>, with no time elapsed and a positive
  expiration, \<open>Get(i, true)\<close> returns the stored \<open>v\<close>. The store below has the positive
  expiration \<open>2^63 - 1\<close>. The sum \<open>t + expiration\<close> of line 88 wraps around to a negative
  number, the test \<open>t + expiration < now\<close> succeeds, and the read in the same second as the
  write returns \<open>[]byte{}\<close> in place of \<open>[9]\<close>.
\<close>

theorem Get_clear_after_Set_wraps:
  "0 <s (9223372036854775807 :: int64) \<and>
   Get (fst (Set (NewMemoryStore 1 9223372036854775807) 1700000000 ''x'' (Some [9])))
       1700000000 ''x'' True =
     (delete_both (fst (Set (NewMemoryStore 1 9223372036854775807) 1700000000 ''x'' (Some [9])))
        ''x'', empty_slice) \<and>
   empty_slice \<noteq> Some [9]"
  by (simp add: Get_def Set_def NewMemoryStore_def Let_def empty_slice_def word_sless_alt)

text \<open>
  C5. The property: immediately after \<open>Set(i, v)\<close>, with no time elapsed and a positive
  expiration, \<open>Get(i, false)\<close> returns the stored \<open>v\<close> and leaves the entry in place, and
  a second \<open>Get(i, false)\<close> returns \<open>v\<close> again. With the positive expiration \<open>2^63 - 1\<close>
  the first read returns \<open>[]byte{}\<close> and deletes the entry, and the second read
  returns nil.
\<close>

theorem Get_keep_after_Set_wraps:
  "0 <s (9223372036854775807 :: int64) \<and>
   snd (Get (fst (Set (NewMemoryStore 100 9223372036854775807) 1700000000 ''a'' (Some [1, 2, 3])))
       1700000000 ''a'' False) = empty_slice \<and>
   empty_slice \<noteq> Some [1, 2, 3] \<and>
   digitsById (fst (Get (fst (Set (NewMemoryStore 100 9223372036854775807) 1700000000 ''a''
       (Some [1, 2, 3]))) 1700000000 ''a'' False)) ''a'' = None \<and>
   snd (Get (fst (Get (fst (Set (NewMemoryStore 100 9223372036854775807) 1700000000 ''a''
       (Some [1, 2, 3]))) 1700000000 ''a'' False)) 1700000000 ''a'' False) = nil_slice"
  by (simp add: Get_def Set_def NewMemoryStore_def Let_def empty_slice_def nil_slice_def
      word_sless_alt)

section \<open>The sweep\<close>

text \<open>
  A sweep at the very second at which the age equals the expiration: the entry written
  at 100 with expiration 10 is still in both maps after a sweep at 110.
\<close>

theorem collect_at_ttl_keeps:
  "range_order (timeById (fst (Set (NewMemoryStore 2 10) 100 ''a'' (Some [1])))) [''a''] \<and>
   sint (expiration (fst (Set (NewMemoryStore 2 10) 100 ''a'' (Some [1]))))
     \<le> sint (110 :: int64) - sint (100 :: int64) \<and>
   timeById (fst (Set (NewMemoryStore 2 10) 100 ''a'' (Some [1]))) ''a'' = Some 100 \<and>
   timeById (collect (fst (Set (NewMemoryStore 2 10) 100 ''a'' (Some [1]))) 110 [''a'']) ''a''
     = Some 100 \<and>
   digitsById (collect (fst (Set (NewMemoryStore 2 10) 100 ''a'' (Some [1]))) 110 [''a'']) ''a''
     = Some (Some [1])"
  by (simp add: range_order_def collect_def NewMemoryStore_def word_sless_alt)

text \<open>
  C6, as the code has it. After a sweep over the keys of the timestamp map, in any order,
  the write counter is 0, and for every id with timestamp \<open>t\<close> whose sum
  \<open>t + expiration\<close> lies in the \<open>int64\<close> range: if \<open>now - t > expiration\<close> the id is in
  neither map; otherwise, so also when the age equals the expiration, its value and its
  timestamp are what they were.
\<close>

theorem collect_sweeps_after_ttl:
  assumes "range_order (timeById s) ks"
  shows "numStored (collect s now ks) = 0 \<and>
    (\<forall>k t. timeById s k = Some t \<and> - (2 ^ 63) \<le> sint t + sint (expiration s) \<and>
        sint t + sint (expiration s) < 2 ^ 63 \<longrightarrow>
       (if sint (expiration s) < sint now - sint t
        then digitsById (collect s now ks) k = None \<and> timeById (collect s now ks) k = None
        else digitsById (collect s now ks) k = digitsById s k \<and>
             timeById (collect s now ks) k = Some t))"
proof (intro conjI allI impI)
  show "numStored (collect s now ks) = 0" by (simp add: collect_def)
next
  fix k t
  assume h: "timeById s k = Some t \<and> - (2 ^ 63) \<le> sint t + sint (expiration s) \<and>
        sint t + sint (expiration s) < 2 ^ 63"
  then have old: "(t + expiration s <s now) \<longleftrightarrow> sint (expiration s) < sint now - sint t"
    using too_old_iff by blast
  from h assms have "k \<in> set ks" by (auto simp: range_order_def)
  with h old show "if sint (expiration s) < sint now - sint t
        then digitsById (collect s now ks) k = None \<and> timeById (collect s now ks) k = None
        else digitsById (collect s now ks) k = digitsById s k \<and>
             timeById (collect s now ks) k = Some t"
    by (simp add: collect_def collect_loop_time collect_loop_digits)
qed

theorem collect_sweeps_after_ttl_witness:
  "range_order (timeById (fst (Set (fst (Set (NewMemoryStore 5 10) 100 ''a'' (Some [1])))
      105 ''b'' (Some [2])))) [''b'', ''a''] \<and>
   numStored (collect (fst (Set (fst (Set (NewMemoryStore 5 10) 100 ''a'' (Some [1])))
      105 ''b'' (Some [2]))) 112 [''b'', ''a'']) = 0 \<and>
   digitsById (collect (fst (Set (fst (Set (NewMemoryStore 5 10) 100 ''a'' (Some [1])))
      105 ''b'' (Some [2]))) 112 [''b'', ''a'']) ''a'' = None \<and>
   timeById (collect (fst (Set (fst (Set (NewMemoryStore 5 10) 100 ''a'' (Some [1])))
      105 ''b'' (Some [2]))) 112 [''b'', ''a'']) ''a'' = None \<and>
   digitsById (collect (fst (Set (fst (Set (NewMemoryStore 5 10) 100 ''a'' (Some [1])))
      105 ''b'' (Some [2]))) 112 [''b'', ''a'']) ''b'' = Some (Some [2]) \<and>
   timeById (collect (fst (Set (fst (Set (NewMemoryStore 5 10) 100 ''a'' (Some [1])))
      105 ''b'' (Some [2]))) 112 [''b'', ''a'']) ''b'' = Some 105"
proof -
  have h: "range_order (timeById (fst (Set (fst (Set (NewMemoryStore 5 10) 100 ''a'' (Some [1])))
      105 ''b'' (Some [2])))) [''b'', ''a'']"
    by (auto simp: range_order_def NewMemoryStore_def)
  note c = collect_sweeps_after_ttl [OF h, of 112]
  from c have n: "numStored (collect (fst (Set (fst (Set (NewMemoryStore 5 10) 100 ''a'' (Some [1])))
      105 ''b'' (Some [2]))) 112 [''b'', ''a'']) = 0"
    by (rule conjunct1)
  from c [THEN conjunct2, rule_format, of "''a''" 100]
  have a: "digitsById (collect (fst (Set (fst (Set (NewMemoryStore 5 10) 100 ''a'' (Some [1])))
      105 ''b'' (Some [2]))) 112 [''b'', ''a'']) ''a'' = None \<and>
   timeById (collect (fst (Set (fst (Set (NewMemoryStore 5 10) 100 ''a'' (Some [1])))
      105 ''b'' (Some [2]))) 112 [''b'', ''a'']) ''a'' = None"
    by (simp add: NewMemoryStore_def)
  from c [THEN conjunct2, rule_format, of "''b''" 105]
  have b: "digitsById (collect (fst (Set (fst (Set (NewMemoryStore 5 10) 100 ''a'' (Some [1])))
      105 ''b'' (Some [2]))) 112 [''b'', ''a'']) ''b'' = Some (Some [2]) \<and>
   timeById (collect (fst (Set (fst (Set (NewMemoryStore 5 10) 100 ''a'' (Some [1])))
      105 ''b'' (Some [2]))) 112 [''b'', ''a'']) ''b'' = Some 105"
    by (simp add: NewMemoryStore_def)
  from h n a b show ?thesis by blast
qed

section \<open>Ids that are not stored\<close>

text \<open>
  C7. For an id that is not in the value map, \<open>Get\<close> returns nil and leaves the store as
  it is, with either value of \<open>clear\<close>. That is the case of every id never written: after
  any sequence of operations on a new store in which no \<open>Set\<close> names the id, \<open>Get\<close>
  returns nil. The read of an entry that the code finds too old returns \<open>[]byte{}\<close>, and
  the two results differ.
\<close>

theorem Get_never_written:
  "(digitsById s k = None \<longrightarrow> Get s now k clear = (s, nil_slice)) \<and>
   ((\<forall>x\<in>set xs. \<not> writes k x) \<longrightarrow>
      Get (run (NewMemoryStore cn ex) xs) now k clear
        = (run (NewMemoryStore cn ex) xs, nil_slice)) \<and>
   (digitsById s' k' = Some d \<and> timeById s' k' = Some t \<and> t + expiration s' <s now' \<longrightarrow>
      snd (Get s' now' k' clear') = empty_slice) \<and>
   nil_slice \<noteq> empty_slice"
proof (intro conjI impI)
  assume "digitsById s k = None"
  then show "Get s now k clear = (s, nil_slice)"
    by (simp add: Get_absent nil_slice_def)
next
  assume "\<forall>x\<in>set xs. \<not> writes k x"
  moreover have "digitsById (NewMemoryStore cn ex) k = None"
    by (simp add: NewMemoryStore_def)
  ultimately have "digitsById (run (NewMemoryStore cn ex) xs) k = None"
    by (simp add: absent_run)
  then show "Get (run (NewMemoryStore cn ex) xs) now k clear =
      (run (NewMemoryStore cn ex) xs, nil_slice)"
    by (simp add: Get_absent nil_slice_def)
next
  assume "digitsById s' k' = Some d \<and> timeById s' k' = Some t \<and> t + expiration s' <s now'"
  then show "snd (Get s' now' k' clear') = empty_slice"
    by (simp add: Get_too_old empty_slice_def)
next
  show "nil_slice \<noteq> empty_slice"
    by (simp add: nil_slice_def empty_slice_def)
qed

theorem Get_never_written_witness:
  "digitsById (fst (Get (fst (Set (NewMemoryStore 2 10) 100 ''a'' (Some [1, 2, 3]))) 100 ''a'' True))
     ''a'' = None \<and>
   Get (fst (Get (fst (Set (NewMemoryStore 2 10) 100 ''a'' (Some [1, 2, 3]))) 100 ''a'' True))
     101 ''a'' True =
     (fst (Get (fst (Set (NewMemoryStore 2 10) 100 ''a'' (Some [1, 2, 3]))) 100 ''a'' True),
      nil_slice) \<and>
   \<not> writes ''d'' (OpSet 100 ''a'' (Some [1, 2, 3])) \<and>
   \<not> writes ''d'' (OpGet 100 ''d'' True) \<and>
   \<not> writes ''d'' (OpCollect 120 [''a'']) \<and>
   snd (Get (run (NewMemoryStore 2 10)
          [OpSet 100 ''a'' (Some [1, 2, 3]), OpGet 100 ''d'' True, OpCollect 120 [''a'']])
        121 ''d'' False) = nil_slice \<and>
   digitsById (fst (Set (NewMemoryStore 2 10) 100 ''a'' (Some [1, 2, 3]))) ''a''
     = Some (Some [1, 2, 3]) \<and>
   timeById (fst (Set (NewMemoryStore 2 10) 100 ''a'' (Some [1, 2, 3]))) ''a'' = Some 100 \<and>
   100 + expiration (fst (Set (NewMemoryStore 2 10) 100 ''a'' (Some [1, 2, 3]))) <s 111 \<and>
   snd (Get (fst (Set (NewMemoryStore 2 10) 100 ''a'' (Some [1, 2, 3]))) 111 ''a'' False)
     = empty_slice"
proof -
  have h1: "digitsById (fst (Get (fst (Set (NewMemoryStore 2 10) 100 ''a'' (Some [1, 2, 3])))
      100 ''a'' True)) ''a'' = None"
    by (simp add: Get_def NewMemoryStore_def word_sless_alt)
  have h2: "\<forall>x\<in>set [OpSet 100 ''a'' (Some [1, 2, 3]), OpGet 100 ''d'' True,
      OpCollect 120 [''a'']]. \<not> writes ''d'' x"
    by simp
  have h3: "digitsById (fst (Set (NewMemoryStore 2 10) 100 ''a'' (Some [1, 2, 3]))) ''a''
       = Some (Some [1, 2, 3]) \<and>
     timeById (fst (Set (NewMemoryStore 2 10) 100 ''a'' (Some [1, 2, 3]))) ''a'' = Some 100 \<and>
     100 + expiration (fst (Set (NewMemoryStore 2 10) 100 ''a'' (Some [1, 2, 3]))) <s 111"
    by (simp add: NewMemoryStore_def word_sless_alt)
  note c = Get_never_written
      [of "fst (Get (fst (Set (NewMemoryStore 2 10) 100 ''a'' (Some [1, 2, 3]))) 100 ''a'' True)"
        "''a''" 101 True
        "[OpSet 100 ''a'' (Some [1, 2, 3]), OpGet 100 ''d'' True, OpCollect 120 [''a'']]" 2 10
        "fst (Set (NewMemoryStore 2 10) 100 ''a'' (Some [1, 2, 3]))" "''a''" "Some [1, 2, 3]"
        100 111 False]
  from c h1 have r1: "Get (fst (Get (fst (Set (NewMemoryStore 2 10) 100 ''a'' (Some [1, 2, 3])))
      100 ''a'' True)) 101 ''a'' True =
     (fst (Get (fst (Set (NewMemoryStore 2 10) 100 ''a'' (Some [1, 2, 3]))) 100 ''a'' True),
      nil_slice)"
    by blast
  from Get_never_written [of _ "''d''" 121 False
      "[OpSet 100 ''a'' (Some [1, 2, 3]), OpGet 100 ''d'' True, OpCollect 120 [''a'']]" 2 10] h2
  have r2: "snd (Get (run (NewMemoryStore 2 10)
          [OpSet 100 ''a'' (Some [1, 2, 3]), OpGet 100 ''d'' True, OpCollect 120 [''a'']])
        121 ''d'' False) = nil_slice"
    by simp
  from c h3
  have r3: "snd (Get (fst (Set (NewMemoryStore 2 10) 100 ''a'' (Some [1, 2, 3]))) 111 ''a'' False)
      = empty_slice"
    by blast
  from h1 h2 h3 r1 r2 r3 show ?thesis by simp
qed

section \<open>Construction\<close>

text \<open>
  A store built with threshold 0 and expiration 0, neither of them positive: it is a
  store like any other, and a value written to it is read back in the same second.
\<close>

theorem NewMemoryStore_accepts_zero:
  "\<not> 0 <s collectNum (NewMemoryStore 0 0) \<and> \<not> 0 <s expiration (NewMemoryStore 0 0) \<and>
   NewMemoryStore 0 0 = \<lparr>digitsById = Map.empty, timeById = Map.empty, numStored = 0,
      collectNum = 0, expiration = 0\<rparr> \<and>
   Get (fst (Set (NewMemoryStore 0 0) 5 ''a'' (Some [1]))) 5 ''a'' False =
     (fst (Set (NewMemoryStore 0 0) 5 ''a'' (Some [1])), Some [1])"
  by (simp add: Get_def Set_def NewMemoryStore_def Let_def word_sless_alt)

text \<open>
  C8, as the code has it. Construction never fails and checks nothing: for every
  threshold and every expiration, positive or not, \<open>NewMemoryStore\<close> yields a store with
  both maps initialised and empty, the write counter 0 and the two arguments stored as
  given. The store answers \<open>Get\<close> and takes \<open>Set\<close> at once.
\<close>

theorem NewMemoryStore_total:
  "digitsById (NewMemoryStore cn ex) = Map.empty \<and>
   timeById (NewMemoryStore cn ex) = Map.empty \<and>
   numStored (NewMemoryStore cn ex) = 0 \<and>
   collectNum (NewMemoryStore cn ex) = cn \<and>
   expiration (NewMemoryStore cn ex) = ex \<and>
   Get (NewMemoryStore cn ex) now k clear = (NewMemoryStore cn ex, nil_slice) \<and>
   digitsById (fst (Set (NewMemoryStore cn ex) now k d)) k = Some d \<and>
   timeById (fst (Set (NewMemoryStore cn ex) now k d)) k = Some now"
  by (simp add: NewMemoryStore_def Get_def nil_slice_def Set_def Let_def)

theorem NewMemoryStore_total_witness:
  "collectNum (NewMemoryStore (- 3) (- 7)) = - 3 \<and>
   expiration (NewMemoryStore (- 3) (- 7)) = - 7 \<and>
   numStored (NewMemoryStore (- 3) (- 7)) = 0 \<and>
   digitsById (NewMemoryStore (- 3) (- 7)) = Map.empty \<and>
   timeById (NewMemoryStore (- 3) (- 7)) = Map.empty \<and>
   numStored (NewMemoryStore 100 600) = 0 \<and>
   digitsById (NewMemoryStore 100 600) = Map.empty \<and>
   timeById (NewMemoryStore 100 600) = Map.empty"
  using NewMemoryStore_total [of "- 3" "- 7"] NewMemoryStore_total [of 100 600]
  by simp

section \<open>The two maps agree\<close>

text \<open>
  C9. The property: from a new store on, every operation keeps the ids of the value map
  and of the timestamp map the same, so that the branch of \<open>Get\<close> for an id with a
  value and no timestamp (lines 85 and 86) is never taken. Along whole calls that do not
  overlap this holds (\<open>same_ids_serial\<close>). Here an entry is written at 100 with
  expiration 10, and two calls of \<open>Get(''a'', false)\<close> at 111 hold the read lock together.
  Call 1 finds the id at line 80. Call 2 runs lines 80 to 91: after its line 89 the id
  is in the timestamp map and not in the value map, after its line 90 it is in neither.
  Call 1 then misses the timestamp at line 84 and returns \<open>[]byte{}\<close> from line 86.
\<close>

theorem Get_overlap_no_timestamp:
  "rlocks (exec (idle (NewMemoryStore 2 10))
     [OpSet 100 ''a'' (Some [1]), OpRLock 1 ''a'', OpRead 1 111, OpRLock 2 ''a'']) = 2 \<and>
   calls (exec (idle (NewMemoryStore 2 10))
     [OpSet 100 ''a'' (Some [1]), OpRLock 1 ''a'', OpRead 1 111, OpRLock 2 ''a'']) 1
     = Some (AtTime ''a'' (Some [1])) \<and>
   digitsById (run (NewMemoryStore 2 10)
     [OpSet 100 ''a'' (Some [1]), OpRLock 1 ''a'', OpRead 1 111, OpRLock 2 ''a'',
      OpRead 2 111, OpRead 2 111, OpRead 2 111]) ''a'' = None \<and>
   timeById (run (NewMemoryStore 2 10)
     [OpSet 100 ''a'' (Some [1]), OpRLock 1 ''a'', OpRead 1 111, OpRLock 2 ''a'',
      OpRead 2 111, OpRead 2 111, OpRead 2 111]) ''a'' = Some 100 \<and>
   calls (exec (idle (NewMemoryStore 2 10))
     [OpSet 100 ''a'' (Some [1]), OpRLock 1 ''a'', OpRead 1 111, OpRLock 2 ''a'',
      OpRead 2 111, OpRead 2 111, OpRead 2 111, OpRead 2 111, OpRead 1 111]) 2
     = Some (Returned TooOld empty_slice) \<and>
   calls (exec (idle (NewMemoryStore 2 10))
     [OpSet 100 ''a'' (Some [1]), OpRLock 1 ''a'', OpRead 1 111, OpRLock 2 ''a'',
      OpRead 2 111, OpRead 2 111, OpRead 2 111, OpRead 2 111, OpRead 1 111]) 1
     = Some (Returned NoTimestamp empty_slice)"
  by (simp add: run_def idle_def NewMemoryStore_def finish_def empty_slice_def word_sless_alt)

section \<open>Stored values that look like the two empty results\<close>



end
